theory Spec2Isabelle
  imports Main "HOL-Library.Sublist"
begin

section \<open>Python strings\<close>

datatype py_error = ValueError | KeyError | IndexError | TypeError | AttributeError | OSError

text \<open>
  A Python \<^verbatim>\<open>str\<close> is modelled as a \<^typ>\<open>string\<close> whose characters are the code points
  0..255. On these code points \<^verbatim>\<open>str.lower\<close> maps \<^verbatim>\<open>A-Z\<close> and the upper-case letters
  of the Latin-1 block (192..222 without the multiplication sign 215) to the code point 32
  above, and leaves everything else alone.
\<close>

definition is_upper :: "char \<Rightarrow> bool" where
  "is_upper c =
     (let n = (of_char c :: nat)
      in (65 \<le> n \<and> n \<le> 90) \<or> (192 \<le> n \<and> n \<le> 222 \<and> n \<noteq> 215))"

definition lower_char :: "char \<Rightarrow> char" where
  "lower_char c = (if is_upper c then char_of ((of_char c :: nat) + 32) else c)"

definition lower :: "string \<Rightarrow> string" where
  "lower s = map lower_char s"


definition is_digit :: "char \<Rightarrow> bool" where
  "is_digit c = (48 \<le> (of_char c :: nat) \<and> (of_char c :: nat) \<le> 57)"


definition rstrip_slash :: "string \<Rightarrow> string" where
  "rstrip_slash s = rev (dropWhile (\<lambda>c. c = CHR ''/'') (rev s))"

text \<open>
  \<^verbatim>\<open>int(ds)\<close> on a string of decimal digits. The value is the usual one, but CPython
  refuses to convert a string of more than \<^verbatim>\<open>sys.get_int_max_str_digits()\<close> digits (4300
  unless the interpreter is configured otherwise) and raises \<^verbatim>\<open>ValueError\<close>.
\<close>

definition digits_value :: "string \<Rightarrow> int" where
  "digits_value ds = foldl (\<lambda>a c. 10 * a + (int (of_char c) - 48)) 0 ds"



text \<open>The substring test \<^verbatim>\<open>sub in s\<close>.\<close>

fun str_contains :: "string \<Rightarrow> string \<Rightarrow> bool" where
  "str_contains sub [] = (sub = [])"
| "str_contains sub (c # cs) = (prefix sub (c # cs) \<or> str_contains sub cs)"

text \<open>\<^verbatim>\<open>any(p in s for p in patterns)\<close>.\<close>

definition any_in :: "string list \<Rightarrow> string \<Rightarrow> bool" where
  "any_in patterns s = list_ex (\<lambda>p. str_contains p s) patterns"

section \<open>Civitai: classification of a model file\<close>

definition MODEL_TYPE_MAPPING :: "(string \<times> string) list" where
  "MODEL_TYPE_MAPPING =
     [(''Checkpoint'', ''checkpoints''),
      (''LORA'', ''loras''),
      (''LoCon'', ''loras''),
      (''TextualInversion'', ''embeddings''),
      (''Hypernetwork'', ''hypernetworks''),
      (''AestheticGradient'', ''embeddings''),
      (''Controlnet'', ''controlnet''),
      (''Poses'', ''controlnet''),
      (''VAE'', ''vae''),
      (''Upscaler'', ''upscale_models''),
      (''MotionModule'', ''motion_modules''),
      (''Wildcards'', ''wildcards''),
      (''Other'', ''checkpoints'')]"

definition determine_model_type :: "string \<Rightarrow> string \<Rightarrow> string" where
  "determine_model_type civitai_type filename =
     (case map_of MODEL_TYPE_MAPPING civitai_type of
        Some d \<Rightarrow> d
      | None \<Rightarrow>
          (let filename_lower = lower filename
           in if any_in [''lora'', ''lycoris''] filename_lower then ''loras''
              else if any_in [''vae''] filename_lower then ''vae''
              else if any_in [''controlnet'', ''control''] filename_lower then ''controlnet''
              else if any_in [''upscaler'', ''upscale'', ''esrgan''] filename_lower
                then ''upscale_models''
              else if any_in [''embedding'', ''textual''] filename_lower then ''embeddings''
              else if any_in [''hypernetwork''] filename_lower then ''hypernetworks''
              else ''checkpoints''))"

text \<open>The directory names the classifier can answer with.\<close>

definition categories :: "string list" where
  "categories =
     [''checkpoints'', ''loras'', ''embeddings'', ''hypernetworks'', ''controlnet'', ''vae'',
      ''upscale_models'', ''motion_modules'', ''wildcards'']"

text \<open>
  The fallback of the classifier read as a table: the keyword groups in the order of the
  \<^verbatim>\<open>if/elif\<close> chain, each with its directory; the first group with a keyword occurring in
  the lower-cased file name decides.
\<close>

definition keyword_groups :: "(string list \<times> string) list" where
  "keyword_groups =
     [([''lora'', ''lycoris''], ''loras''),
      ([''vae''], ''vae''),
      ([''controlnet'', ''control''], ''controlnet''),
      ([''upscaler'', ''upscale'', ''esrgan''], ''upscale_models''),
      ([''embedding'', ''textual''], ''embeddings''),
      ([''hypernetwork''], ''hypernetworks'')]"

definition first_matching_group :: "(string list \<times> string) list \<Rightarrow> string \<Rightarrow> string" where
  "first_matching_group groups filename =
     (case find (\<lambda>g. any_in (fst g) (lower filename)) groups of
        Some g \<Rightarrow> snd g
      | None \<Rightarrow> ''checkpoints'')"

section \<open>Civitai: parsing a URL\<close>










section \<open>Civitai: the search request\<close>

datatype param = PStr string | PInt int

record http_request =
  req_url :: string
  req_params :: "(string \<times> param) list"

text \<open>
  JSON values as the \<^verbatim>\<open>json\<close> module hands them to Python. Floating point numbers are
  kept abstract.
\<close>

typedecl pyfloat

datatype json =
  JNull
  | JBool bool
  | JInt int
  | JFloat pyfloat
  | JStr string
  | JArr "json list"
  | JObj "(string \<times> json) list"

definition BASE_URL :: string where
  "BASE_URL = ''https://civitai.com/api/v1''"

text \<open>
  \<open>session_get\<close> stands for \<^verbatim>\<open>self.session.get\<close> followed by \<^verbatim>\<open>raise_for_status\<close> and
  \<^verbatim>\<open>response.json()\<close>: it answers with the decoded body or with the exception raised on
  the way. The function returns the requests it has sent next to its result.
\<close>

definition search_models ::
  "(http_request \<Rightarrow> py_error + json) \<Rightarrow> string \<Rightarrow> int \<Rightarrow> string option
     \<Rightarrow> http_request list \<times> json" where
  "search_models session_get query limit model_type =
     (let params = [(''query'', PStr query), (''limit'', PInt (min limit 100)), (''page'', PInt 1)];
          params = (case model_type of
                      None \<Rightarrow> params
                    | Some t \<Rightarrow> if t = [] then params else params @ [(''types'', PStr t)]);
          request = \<lparr>req_url = BASE_URL @ ''/models'', req_params = params\<rparr>
      in (case session_get request of
            Inl e \<Rightarrow> ([request], JArr [])
          | Inr data \<Rightarrow>
              (case data of
                 JObj kvs \<Rightarrow>
                   ([request], (case map_of kvs ''items'' of Some v \<Rightarrow> v | None \<Rightarrow> JArr []))
               | _ \<Rightarrow> ([request], JArr []))))"

section \<open>Verification of a downloaded file\<close>

text \<open>
  \<^verbatim>\<open>verify_file_hash\<close> of \<^verbatim>\<open>ModelDownloader\<close> and of \<^verbatim>\<open>AdvancedModelDownloader\<close> (the
  two bodies are the same). The file system maps a path to the content of the file there,
  \<open>sha256_hexdigest\<close> stands for \<^verbatim>\<open>hashlib.sha256(content).hexdigest()\<close>; a file that
  cannot be read raises, which the function answers with \<^verbatim>\<open>False\<close>.
\<close>

definition verify_file_hash ::
  "('b \<Rightarrow> string) \<Rightarrow> (string \<rightharpoonup> 'b) \<Rightarrow> string \<Rightarrow> string \<Rightarrow> bool" where
  "verify_file_hash sha256_hexdigest files file_path expected_hash =
     (case files file_path of
        None \<Rightarrow> False
      | Some content \<Rightarrow> lower (sha256_hexdigest content) = lower expected_hash)"

text \<open>
  Two characters that differ at most in letter case, and two strings that do so position
  by position.
\<close>

definition same_letter :: "char \<Rightarrow> char \<Rightarrow> bool" where
  "same_letter x y =
     (x = y \<or> (is_upper x \<and> y = lower_char x) \<or> (is_upper y \<and> x = lower_char y))"

definition equal_up_to_case :: "string \<Rightarrow> string \<Rightarrow> bool" where
  "equal_up_to_case a b = list_all2 same_letter a b"

definition is_hex_digest :: "string \<Rightarrow> bool" where
  "is_hex_digest s = list_all (\<lambda>c. c \<in> set ''0123456789abcdef'') s"

section \<open>The directory of a model type\<close>

text \<open>
  \<^verbatim>\<open>folder_paths.folder_names_and_paths\<close> maps a model type to a pair of its directories
  and its file extensions; \<^verbatim>\<open>folder_paths.get_folder_paths\<close> is a function of the host
  application. Both are parameters of the model.
\<close>

type_synonym folder_table = "string \<rightharpoonup> (string list \<times> string list)"

definition get_model_directory_civitai ::
  "folder_table \<Rightarrow> (string \<Rightarrow> py_error + string list) \<Rightarrow> string \<Rightarrow> py_error + string" where
  "get_model_directory_civitai folder_names_and_paths get_folder_paths model_type =
     (if folder_names_and_paths model_type = None then Inl ValueError
      else (case get_folder_paths model_type of
              Inl e \<Rightarrow> Inl e
            | Inr paths \<Rightarrow> (case paths of [] \<Rightarrow> Inl ValueError | p # _ \<Rightarrow> Inr p)))"

text \<open>\<^verbatim>\<open>folder_paths.folder_names_and_paths[model_type][0][0]\<close>.\<close>

definition first_folder :: "folder_table \<Rightarrow> string \<Rightarrow> py_error + string" where
  "first_folder folder_names_and_paths model_type =
     (case folder_names_and_paths model_type of
        None \<Rightarrow> Inl KeyError
      | Some (paths, exts) \<Rightarrow> (case paths of [] \<Rightarrow> Inl IndexError | p # _ \<Rightarrow> Inr p))"

definition get_model_directory_hf :: "folder_table \<Rightarrow> string \<Rightarrow> py_error + string" where
  "get_model_directory_hf folder_names_and_paths model_type =
     (case first_folder folder_names_and_paths model_type of
        Inl e \<Rightarrow>
          if e = KeyError then first_folder folder_names_and_paths ''checkpoints'' else Inl e
      | Inr p \<Rightarrow> Inr p)"

section \<open>Hugging Face: segmented models\<close>

text \<open>
  \<^verbatim>\<open>re.match\<close> of \<^verbatim>\<open>(.+)-(\d{5})-of-(\d{5})\.([^.]+)$\<close>. The last group has no dot and
  runs to the end of the name, so the dot before it is the last dot of the name; the
  fifteen characters before that dot are the two numbers, and what stands before them is
  the base name, which is not empty and has no line feed (the dot of \<^verbatim>\<open>.+\<close> matches none).
  The match is unique, and the groups are those the greedy search finds.
\<close>

definition match_segment :: "string \<Rightarrow> (string \<times> string \<times> string \<times> string) option" where
  "match_segment name =
     (let ext = rev (takeWhile (\<lambda>c. c \<noteq> CHR ''.'') (rev name));
          stem = rev (drop 1 (dropWhile (\<lambda>c. c \<noteq> CHR ''.'') (rev name)));
          base = take (length stem - 15) stem;
          tail = drop (length stem - 15) stem
      in if CHR ''.'' \<in> set name \<and> ext \<noteq> [] \<and> 15 < length stem
            \<and> CHR 0x0A \<notin> set base
            \<and> take 1 tail = ''-'' \<and> list_all is_digit (take 5 (drop 1 tail))
            \<and> take 4 (drop 6 tail) = ''-of-'' \<and> list_all is_digit (drop 10 tail)
         then Some (base, take 5 (drop 1 tail), drop 10 tail, ext)
         else None)"

record segment_member =
  seg_file :: string
  seg_segment :: int
  seg_total :: int

record segment_group =
  grp_total_segments :: int
  grp_extension :: string
  grp_files :: "segment_member list"

text \<open>
  A Python dictionary keeps its keys in the order of their first insertion: an association
  list in which \<open>dict_set\<close> replaces the value of a key in place and appends a new key.
\<close>

fun dict_set :: "'k \<Rightarrow> 'v \<Rightarrow> ('k \<times> 'v) list \<Rightarrow> ('k \<times> 'v) list" where
  "dict_set k v [] = [(k, v)]"
| "dict_set k v ((k', v') # kvs) =
     (if k' = k then (k, v) # kvs else (k', v') # dict_set k v kvs)"

text \<open>
  One turn of the loop over the file names. The two numbers of a matching name have five
  digits each, so \<^verbatim>\<open>int\<close> converts them.
\<close>

definition add_segment ::
  "(string \<times> segment_group) list \<Rightarrow> string \<Rightarrow> (string \<times> segment_group) list" where
  "add_segment segmented_models name =
     (case match_segment name of
        None \<Rightarrow> segmented_models
      | Some (base_name, g2, g3, ext) \<Rightarrow>
          (let segment_num = digits_value g2;
               total_segments = digits_value g3;
               group = (case map_of segmented_models base_name of
                          None \<Rightarrow>
                            \<lparr>grp_total_segments = total_segments, grp_extension = ext,
                             grp_files = []\<rparr>
                        | Some g \<Rightarrow> g);
               member = \<lparr>seg_file = name, seg_segment = segment_num,
                         seg_total = total_segments\<rparr>
           in dict_set base_name (group\<lparr>grp_files := grp_files group @ [member]\<rparr>)
                segmented_models))"

definition detect_segmented_models :: "string list \<Rightarrow> (string \<times> segment_group) list" where
  "detect_segmented_models names =
     map (\<lambda>(base_name, g). (base_name, g\<lparr>grp_files := sort_key seg_segment (grp_files g)\<rparr>))
       (foldl add_segment [] names)"

section \<open>Hugging Face: paths and destinations\<close>

text \<open>\<^verbatim>\<open>os.path.join(a, b)\<close>, \<^verbatim>\<open>os.path.basename\<close> and \<^verbatim>\<open>os.path.dirname\<close> of POSIX.\<close>

definition os_path_join :: "string \<Rightarrow> string \<Rightarrow> string" where
  "os_path_join a b =
     (if prefix ''/'' b then b
      else if a = [] \<or> suffix ''/'' a then a @ b
      else a @ ''/'' @ b)"

definition os_path_basename :: "string \<Rightarrow> string" where
  "os_path_basename p = rev (takeWhile (\<lambda>c. c \<noteq> CHR ''/'') (rev p))"

definition os_path_dirname :: "string \<Rightarrow> string" where
  "os_path_dirname p =
     (let head = rev (dropWhile (\<lambda>c. c \<noteq> CHR ''/'') (rev p))
      in if head \<noteq> [] \<and> \<not> list_all (\<lambda>c. c = CHR ''/'') head then rstrip_slash head
         else head)"

text \<open>\<^verbatim>\<open>repo_id.split('/')[-1]\<close>.\<close>

definition repo_name_of :: "string \<Rightarrow> string" where
  "repo_name_of repo_id = rev (takeWhile (\<lambda>c. c \<noteq> CHR ''/'') (rev repo_id))"

definition get_file_destination_directory ::
  "folder_table \<Rightarrow> string \<Rightarrow> string \<Rightarrow> string \<Rightarrow> py_error + string" where
  "get_file_destination_directory folder_names_and_paths filename base_model_dir repo_id =
     (let filename_lower = lower filename;
          repo_name = repo_name_of repo_id;
          under = (\<lambda>model_type.
                     case get_model_directory_hf folder_names_and_paths model_type of
                       Inl e \<Rightarrow> Inl e
                     | Inr d \<Rightarrow> Inr (os_path_join d repo_name))
      in if any_in [''vae'', ''autoencoder''] filename_lower
            \<or> str_contains ''/vae/'' filename_lower
         then under ''vae''
         else if any_in [''lora'', ''loras''] filename_lower
            \<or> str_contains ''/lora/'' filename_lower
         then under ''loras''
         else if any_in [''text_encoder'', ''text_encoders''] filename_lower
            \<or> str_contains ''/text_encoder'' filename_lower
         then under ''text_encoders''
         else if any_in [''unet'', ''diffusion_pytorch_model''] filename_lower
            \<or> str_contains ''/unet/'' filename_lower
         then under ''diffusion_models''
         else if any_in [''config'', ''preprocessor'', ''tokenizer'', ''scheduler'',
                         ''model_index''] filename_lower
         then Inr (os_path_join base_model_dir repo_name)
         else Inr (os_path_join base_model_dir repo_name))"

definition is_main_model_file :: "string \<Rightarrow> bool" where
  "is_main_model_file filename =
     (let filename_lower = lower filename
      in if \<not> any_in [''.safetensors'', ''.ckpt'', ''.pt'', ''.pth''] filename_lower then False
         else if any_in [''vae'', ''lora'', ''text_encoder'', ''unet'', ''config'',
                         ''preprocessor'', ''tokenizer'', ''scheduler''] filename_lower
         then False
         else True)"

definition supported_extensions :: "string list" where
  "supported_extensions =
     [''.ckpt'', ''.pt'', ''.pt2'', ''.bin'', ''.pth'', ''.safetensors'', ''.pkl'', ''.sft'',
      ''.yaml'', ''.json'']"

definition is_model_file :: "string \<Rightarrow> bool" where
  "is_model_file f = list_ex (\<lambda>ext. suffix ext (lower f)) supported_extensions"

section \<open>Hugging Face: the type of a repository\<close>

definition MODEL_TYPE_PATTERNS :: "(string \<times> string) list" where
  "MODEL_TYPE_PATTERNS =
     [(''stable-diffusion'', ''checkpoints''),
      (''sd-'', ''checkpoints''),
      (''diffusion'', ''checkpoints''),
      (''checkpoint'', ''checkpoints''),
      (''model'', ''checkpoints''),
      (''lora'', ''loras''),
      (''lora-'', ''loras''),
      (''loras'', ''loras''),
      (''vae'', ''vae''),
      (''autoencoder'', ''vae''),
      (''controlnet'', ''controlnet''),
      (''control'', ''controlnet''),
      (''embedding'', ''embeddings''),
      (''textual-inversion'', ''embeddings''),
      (''ti-'', ''embeddings''),
      (''upscaler'', ''upscale_models''),
      (''upscale'', ''upscale_models''),
      (''esrgan'', ''upscale_models''),
      (''real-esrgan'', ''upscale_models''),
      (''hypernetwork'', ''hypernetworks''),
      (''hyper'', ''hypernetworks'')]"

text \<open>
  What \<^verbatim>\<open>get_repo_info\<close> returns, as far as the download reads it: the tags (\<open>None\<close> when
  the hub gives no list, so that the loop over them raises) and the text of the model card
  (\<open>None\<close> when the card data is missing or empty).
\<close>

record repo_info =
  ri_tags :: "string list option"
  ri_card_text :: "string option"

definition find_pattern :: "string \<Rightarrow> string option" where
  "find_pattern s = map_option snd (find (\<lambda>(pattern, model_type). str_contains pattern s) MODEL_TYPE_PATTERNS)"

fun first_tag_type :: "string list \<Rightarrow> string option" where
  "first_tag_type [] = None"
| "first_tag_type (tag # tags) =
     (case find_pattern (lower tag) of Some t \<Rightarrow> Some t | None \<Rightarrow> first_tag_type tags)"

definition detect_model_type :: "string \<Rightarrow> repo_info option \<Rightarrow> string" where
  "detect_model_type repo_id info =
     (case find_pattern (lower (repo_name_of repo_id)) of
        Some t \<Rightarrow> t
      | None \<Rightarrow>
          (case info of
             None \<Rightarrow> ''checkpoints''
           | Some i \<Rightarrow>
               (case ri_tags i of
                  None \<Rightarrow> ''checkpoints''
                | Some tags \<Rightarrow>
                    (case first_tag_type tags of
                       Some t \<Rightarrow> t
                     | None \<Rightarrow>
                         (case ri_card_text i of
                            None \<Rightarrow> ''checkpoints''
                          | Some card_text \<Rightarrow>
                              (case find_pattern (lower card_text) of
                                 Some t \<Rightarrow> t
                               | None \<Rightarrow> ''checkpoints''))))))"

section \<open>Hugging Face: downloading\<close>

text \<open>
  The state the download works on: the files on disk (path to content) and the trace of the
  calls of \<^verbatim>\<open>download_file\<close>, each with the file name asked for and the value returned.
\<close>

record world =
  fs :: "string \<rightharpoonup> string"
  trace :: "(string \<times> bool) list"

text \<open>
  What is outside the program: the hub and the operating system. The number of calls of
  \<^verbatim>\<open>download_file\<close> made so far serves as the time, so an answer may change from one call
  to the next.
  \<^item> \<open>repo_info_of\<close>: the result of \<^verbatim>\<open>get_repo_info\<close> (\<open>None\<close> when the hub call raises);
  \<^item> \<open>repo_files_of\<close>: the result of \<^verbatim>\<open>list_repo_files\<close> (empty when the hub call raises);
  \<^item> \<open>hub_fetch\<close>: the content \<^verbatim>\<open>hf_hub_download\<close> brings into the temporary
    directory, \<open>None\<close> when it raises or leaves no file;
  \<^item> \<open>makedirs_ok\<close>, \<open>remove_ok\<close>, \<open>rename_ok\<close>: whether \<^verbatim>\<open>os.makedirs\<close>, \<^verbatim>\<open>os.remove\<close>
    and \<^verbatim>\<open>os.rename\<close> succeed on a path;
  \<^item> \<open>metadata_text\<close>: the text \<^verbatim>\<open>save_model_metadata\<close> leaves in the sidecar file of a
    destination, \<open>None\<close> when it fails before the file is opened.
\<close>

record env =
  repo_info_of :: "string \<Rightarrow> repo_info option"
  repo_files_of :: "string \<Rightarrow> string \<Rightarrow> string list"
  hub_fetch :: "nat \<Rightarrow> string \<Rightarrow> string \<Rightarrow> string \<Rightarrow> string option"
  makedirs_ok :: "nat \<Rightarrow> string \<Rightarrow> bool"
  remove_ok :: "nat \<Rightarrow> string \<Rightarrow> bool"
  rename_ok :: "nat \<Rightarrow> string \<Rightarrow> bool"
  metadata_text :: "nat \<Rightarrow> string \<Rightarrow> string \<Rightarrow> string option"

definition returned :: "world \<Rightarrow> string \<Rightarrow> bool \<Rightarrow> bool \<times> world" where
  "returned w filename r = (r, w\<lparr>trace := trace w @ [(filename, r)]\<rparr>)"

definition download_file ::
  "env \<Rightarrow> world \<Rightarrow> string \<Rightarrow> string \<Rightarrow> string \<Rightarrow> string \<Rightarrow> bool \<times> world" where
  "download_file e w repo_id filename destination branch =
     (let now = length (trace w)
      in case hub_fetch e now repo_id filename branch of
           None \<Rightarrow> returned w filename False
         | Some content \<Rightarrow>
             if \<not> makedirs_ok e now (os_path_dirname destination)
             then returned w filename False
             else if fs w destination \<noteq> None \<and> \<not> remove_ok e now destination
             then returned w filename False
             else if \<not> rename_ok e now destination
             then returned (w\<lparr>fs := (fs w)(destination := None)\<rparr>) filename False
             else returned (w\<lparr>fs := (fs w)(destination \<mapsto> content)\<rparr>) filename True)"

text \<open>
  The loop over the segments of \<^verbatim>\<open>download_segmented_model\<close>: \<open>None\<close> is the
  \<^verbatim>\<open>return False\<close> inside the loop, otherwise the list \<^verbatim>\<open>downloaded_files\<close>.
\<close>

fun download_segments ::
  "env \<Rightarrow> world \<Rightarrow> string \<Rightarrow> string \<Rightarrow> string \<Rightarrow> segment_member list \<Rightarrow> string list
     \<Rightarrow> string list option \<times> world" where
  "download_segments e w repo_id branch dir [] downloaded_files = (Some downloaded_files, w)"
| "download_segments e w repo_id branch dir (file_info # rest) downloaded_files =
     (let filename = seg_file file_info;
          destination = os_path_join dir filename
      in case download_file e w repo_id filename destination branch of
           (ok, w') \<Rightarrow>
             if ok
             then download_segments e w' repo_id branch dir rest (downloaded_files @ [destination])
             else (None, w'))"

definition download_segmented_model ::
  "env \<Rightarrow> folder_table \<Rightarrow> world \<Rightarrow> string \<Rightarrow> string \<Rightarrow> segment_group \<Rightarrow> string \<Rightarrow> string
     \<Rightarrow> bool \<times> world" where
  "download_segmented_model e folder_names_and_paths w repo_id base_name segments_info
       destination_dir branch =
     (case get_file_destination_directory folder_names_and_paths base_name destination_dir
             repo_id of
        Inl err \<Rightarrow> (False, w)
      | Inr segmented_destination_dir \<Rightarrow>
          if \<not> makedirs_ok e (length (trace w)) segmented_destination_dir then (False, w)
          else (case download_segments e w repo_id branch segmented_destination_dir
                       (grp_files segments_info) [] of
                  (None, w') \<Rightarrow> (False, w')
                | (Some downloaded_files, w') \<Rightarrow>
                    (int (length downloaded_files) = grp_total_segments segments_info, w')))"

definition save_model_metadata :: "env \<Rightarrow> world \<Rightarrow> string \<Rightarrow> string \<Rightarrow> world" where
  "save_model_metadata e w repo_id destination =
     (case metadata_text e (length (trace w)) repo_id destination of
        None \<Rightarrow> w
      | Some text \<Rightarrow> w\<lparr>fs := (fs w)(destination @ ''.huggingface.json'' \<mapsto> text)\<rparr>)"

text \<open>The loop over the groups of a segmented repository.\<close>

fun download_groups ::
  "env \<Rightarrow> folder_table \<Rightarrow> world \<Rightarrow> string \<Rightarrow> string \<Rightarrow> string
     \<Rightarrow> (string \<times> segment_group) list \<Rightarrow> bool \<Rightarrow> bool \<times> world" where
  "download_groups e t w repo_id model_dir branch [] success = (success, w)"
| "download_groups e t w repo_id model_dir branch ((base_name, segments_info) # rest) success =
     (case download_segmented_model e t w repo_id base_name segments_info model_dir branch of
        (ok, w') \<Rightarrow>
          download_groups e t w' repo_id model_dir branch rest (if \<not> ok then False else success))"

text \<open>
  The loop over the single model files; \<open>None\<close> stands for an exception that leaves the
  loop (the caller answers it with \<^verbatim>\<open>False\<close>).
\<close>

fun download_files ::
  "env \<Rightarrow> folder_table \<Rightarrow> world \<Rightarrow> string \<Rightarrow> string \<Rightarrow> string \<Rightarrow> string list \<Rightarrow> bool \<Rightarrow> bool
     \<Rightarrow> bool option \<times> world" where
  "download_files e t w repo_id model_dir branch [] success downloaded_main_model =
     (Some success, w)"
| "download_files e t w repo_id model_dir branch (model_file # rest) success
       downloaded_main_model =
     (case get_file_destination_directory t model_file model_dir repo_id of
        Inl err \<Rightarrow> (None, w)
      | Inr file_destination_dir \<Rightarrow>
          (let destination = os_path_join file_destination_dir (os_path_basename model_file)
           in if \<not> makedirs_ok e (length (trace w)) file_destination_dir then (None, w)
              else (case download_file e w repo_id model_file destination branch of
                      (ok, w') \<Rightarrow>
                        if ok
                        then (if \<not> downloaded_main_model \<and> is_main_model_file model_file
                              then download_files e t
                                     (save_model_metadata e w' repo_id destination)
                                     repo_id model_dir branch rest success True
                              else download_files e t w' repo_id model_dir branch rest success
                                     downloaded_main_model)
                        else download_files e t w' repo_id model_dir branch rest False
                               downloaded_main_model)))"

definition download_model ::
  "env \<Rightarrow> folder_table \<Rightarrow> world \<Rightarrow> string \<Rightarrow> string \<Rightarrow> string option \<Rightarrow> bool \<times> world" where
  "download_model e t w repo_id branch custom_dir =
     (case repo_info_of e repo_id of
        None \<Rightarrow> (False, w)
      | Some info \<Rightarrow>
          (let model_type = detect_model_type repo_id (Some info)
           in case (case custom_dir of
                      None \<Rightarrow> get_model_directory_hf t model_type
                    | Some d \<Rightarrow> if d = [] then get_model_directory_hf t model_type else Inr d) of
                Inl err \<Rightarrow> (False, w)
              | Inr model_dir \<Rightarrow>
                  (let files = repo_files_of e repo_id branch
                   in if files = [] then (False, w)
                      else (let segmented_models = detect_segmented_models files
                            in if segmented_models \<noteq> []
                               then download_groups e t w repo_id model_dir branch
                                      segmented_models True
                               else (let model_files = filter is_model_file files
                                     in if model_files = [] then (False, w)
                                        else (case download_files e t w repo_id model_dir branch
                                                     model_files True False of
                                                (None, w') \<Rightarrow> (False, w')
                                              | (Some success, w') \<Rightarrow> (success, w')))))))"

section \<open>Civitai: the metadata file of a download\<close>

text \<open>\<^verbatim>\<open>d.get(key, default)\<close> on a dictionary decoded from JSON.\<close>

definition dict_get :: "(string \<times> json) list \<Rightarrow> string \<Rightarrow> json \<Rightarrow> json" where
  "dict_get d key dflt = (case map_of d key of Some v \<Rightarrow> v | None \<Rightarrow> dflt)"

text \<open>
  \<^verbatim>\<open>v * 1024\<close> on a decoded value: numbers are multiplied (a Boolean counts as 0 or 1),
  strings and lists are repeated, \<^verbatim>\<open>None\<close> and dictionaries raise. \<open>float_times\<close> is the
  multiplication of the floating point numbers by 1024.
\<close>

definition times_1024 :: "(pyfloat \<Rightarrow> pyfloat) \<Rightarrow> json \<Rightarrow> py_error + json" where
  "times_1024 float_times v =
     (case v of
        JNull \<Rightarrow> Inl TypeError
      | JBool b \<Rightarrow> Inr (JInt (if b then 1024 else 0))
      | JInt n \<Rightarrow> Inr (JInt (n * 1024))
      | JFloat x \<Rightarrow> Inr (JFloat (float_times x))
      | JStr s \<Rightarrow> Inr (JStr (concat (replicate 1024 s)))
      | JArr xs \<Rightarrow> Inr (JArr (concat (replicate 1024 xs)))
      | JObj kvs \<Rightarrow> Inl TypeError)"

text \<open>
  The dictionary \<^verbatim>\<open>metadata\<close> of \<^verbatim>\<open>_save_metadata\<close>, or the exception that building it
  raises. \<open>stat_mtime\<close> is \<^verbatim>\<open>str(Path(file_path).stat().st_mtime)\<close>, \<open>None\<close> when the file
  cannot be examined.
\<close>

definition build_metadata ::
  "(pyfloat \<Rightarrow> pyfloat) \<Rightarrow> (string \<Rightarrow> string option) \<Rightarrow> string
     \<Rightarrow> (string \<times> json) list \<Rightarrow> (string \<times> json) list \<Rightarrow> (string \<times> json) list
     \<Rightarrow> py_error + json" where
  "build_metadata float_times stat_mtime file_path model_info version_info file_info =
     (case times_1024 float_times (dict_get file_info ''sizeKB'' (JInt 0)) of
        Inl err \<Rightarrow> Inl err
      | Inr file_size \<Rightarrow>
          (case stat_mtime file_path of
             None \<Rightarrow> Inl OSError
           | Some mtime \<Rightarrow>
               (case dict_get model_info ''creator'' (JObj []) of
                  JObj creator \<Rightarrow>
                    Inr (JObj
                      [(''civitai_model_id'', dict_get model_info ''id'' JNull),
                       (''civitai_version_id'', dict_get version_info ''id'' JNull),
                       (''model_name'', dict_get model_info ''name'' JNull),
                       (''model_type'', dict_get model_info ''type'' JNull),
                       (''version_name'', dict_get version_info ''name'' JNull),
                       (''file_name'', dict_get file_info ''name'' JNull),
                       (''file_size'', file_size),
                       (''download_date'', JStr mtime),
                       (''description'', dict_get model_info ''description'' (JStr [])),
                       (''tags'', dict_get model_info ''tags'' (JArr [])),
                       (''creator'', dict_get creator ''username'' (JStr [])),
                       (''nsfw'', dict_get model_info ''nsfw'' (JBool False))])
                | _ \<Rightarrow> Inl AttributeError)))"

text \<open>
  What is outside the program when the sidecar file is written and read: the encoder and
  the decoder of the \<^verbatim>\<open>json\<close> module and the operating system.
  \<^item> \<open>json_dump\<close>: the text written for a value, \<open>Inr\<close> when the value is written in full,
    \<open>Inl\<close> with what has reached the file when the encoder raises on the way;
  \<^item> \<open>json_load\<close>: the value decoded from a text, \<open>None\<close> when the decoder raises;
  \<^item> \<open>can_write\<close>, \<open>can_read\<close>: whether a path can be opened for writing, for reading;
  \<^item> \<open>float_times\<close>, \<open>stat_mtime\<close>: as above.
\<close>

record outside =
  json_dump :: "json \<Rightarrow> string + string"
  json_load :: "string \<Rightarrow> json option"
  can_write :: "string \<Rightarrow> bool"
  can_read :: "string \<Rightarrow> bool"
  float_times :: "pyfloat \<Rightarrow> pyfloat"
  stat_mtime :: "string \<Rightarrow> string option"

definition save_metadata ::
  "outside \<Rightarrow> (string \<rightharpoonup> string) \<Rightarrow> string
     \<Rightarrow> (string \<times> json) list \<Rightarrow> (string \<times> json) list \<Rightarrow> (string \<times> json) list
     \<Rightarrow> (string \<rightharpoonup> string)" where
  "save_metadata out disk file_path model_info version_info file_info =
     (case build_metadata (float_times out) (stat_mtime out) file_path model_info version_info
             file_info of
        Inl err \<Rightarrow> disk
      | Inr metadata \<Rightarrow>
          (let metadata_path = file_path @ ''.civitai.json''
           in if \<not> can_write out metadata_path then disk
              else (case json_dump out metadata of
                      Inl partial \<Rightarrow> disk(metadata_path \<mapsto> partial)
                    | Inr text \<Rightarrow> disk(metadata_path \<mapsto> text))))"

definition get_model_metadata ::
  "outside \<Rightarrow> (string \<rightharpoonup> string) \<Rightarrow> string \<Rightarrow> json option" where
  "get_model_metadata out disk file_path =
     (let metadata_path = file_path @ ''.civitai.json''
      in case disk metadata_path of
           None \<Rightarrow> None
         | Some text \<Rightarrow> if \<not> can_read out metadata_path then None else json_load out text)"

section \<open>Properties of the classifier\<close>

text \<open>
  C1. Classification is total and a declared type wins. \<^const>\<open>determine_model_type\<close> has no
  branch that raises (membership in the table, \<^verbatim>\<open>str.lower\<close> and substring tests are
  defined on all strings), so it is a function from two strings to a string; for every
  pair of strings, the empty ones included, the answer is one of the nine directory names,
  and when the type is a key of \<^const>\<open>MODEL_TYPE_MAPPING\<close> the answer is the entry of the
  table, whatever the file name is.
\<close>

theorem determine_model_type_total:
  "determine_model_type civitai_type filename \<in> set categories
   \<and> (\<forall>d. map_of MODEL_TYPE_MAPPING civitai_type = Some d
          \<longrightarrow> determine_model_type civitai_type filename = d)"
proof
  show "determine_model_type civitai_type filename \<in> set categories"
    unfolding determine_model_type_def Let_def
    by (simp add: categories_def MODEL_TYPE_MAPPING_def split: option.splits)
next
  show "\<forall>d. map_of MODEL_TYPE_MAPPING civitai_type = Some d
          \<longrightarrow> determine_model_type civitai_type filename = d"
    by (simp add: determine_model_type_def)
qed

theorem determine_model_type_total_witness:
  "determine_model_type ''VAE'' ''my-checkpoint.safetensors'' = ''vae''
   \<and> determine_model_type [] [] \<in> set categories"
proof -
  have "map_of MODEL_TYPE_MAPPING ''VAE'' = Some ''vae''"
    by (simp add: MODEL_TYPE_MAPPING_def)
  then show ?thesis
    using determine_model_type_total [of "''VAE''" "''my-checkpoint.safetensors''"]
      determine_model_type_total [of "[]" "[]"]
    by blast
qed

text \<open>
  C3, as the claim states it, fails: the claim lists the vae keywords before the lora
  keywords, but the chain of \<^const>\<open>determine_model_type\<close> tests \<^verbatim>\<open>lora\<close> and \<^verbatim>\<open>lycoris\<close>
  first. A file name with both a vae and a lora keyword, under a type that is not in the
  table, goes to \<^verbatim>\<open>loras\<close>, not to \<^verbatim>\<open>vae\<close>.
\<close>

theorem fallback_vae_first_counterexample:
  "map_of MODEL_TYPE_MAPPING ''Unknown'' = None
   \<and> str_contains ''vae'' (lower ''vae-lora.safetensors'')
   \<and> str_contains ''lora'' (lower ''vae-lora.safetensors'')
   \<and> determine_model_type ''Unknown'' ''vae-lora.safetensors'' = ''loras''
   \<and> determine_model_type ''Unknown'' ''vae-lora.safetensors'' \<noteq> ''vae''"
  by code_simp

text \<open>
  C3, amended. When the type is not in the table, the lower-cased file name is tested
  against the keyword groups in the order lora/lycoris, vae, controlnet/control,
  upscaler/upscale/esrgan, embedding/textual, hypernetwork (\<^const>\<open>keyword_groups\<close>); the
  first group with a keyword in the name decides, and without any the answer is
  \<^verbatim>\<open>checkpoints\<close>. In particular a name with a lora keyword goes to \<^verbatim>\<open>loras\<close> also when it
  has a vae keyword, and a name with \<^verbatim>\<open>vae\<close> and no lora keyword goes to \<^verbatim>\<open>vae\<close>.
\<close>

theorem fallback_keyword_order:
  assumes "map_of MODEL_TYPE_MAPPING civitai_type = None"
  shows "determine_model_type civitai_type filename
           = first_matching_group keyword_groups filename
       \<and> (any_in [''lora'', ''lycoris''] (lower filename)
            \<longrightarrow> determine_model_type civitai_type filename = ''loras'')
       \<and> (\<not> any_in [''lora'', ''lycoris''] (lower filename)
              \<and> str_contains ''vae'' (lower filename)
            \<longrightarrow> determine_model_type civitai_type filename = ''vae'')"
  using assms
  by (simp add: determine_model_type_def first_matching_group_def keyword_groups_def
      any_in_def)

theorem fallback_keyword_order_witness:
  "determine_model_type ''Unknown'' ''vae-lora.safetensors''
     = first_matching_group keyword_groups ''vae-lora.safetensors''
   \<and> determine_model_type ''Unknown'' ''vae-lora.safetensors'' = ''loras''"
proof -
  have "map_of MODEL_TYPE_MAPPING ''Unknown'' = None"
    by (simp add: MODEL_TYPE_MAPPING_def)
  moreover have "any_in [''lora'', ''lycoris''] (lower ''vae-lora.safetensors'')"
    by code_simp
  ultimately show ?thesis
    using fallback_keyword_order [of "''Unknown''" "''vae-lora.safetensors''"] by blast
qed

section \<open>Properties of the search request\<close>

text \<open>
  C9. Every call of \<^const>\<open>search_models\<close> sends exactly one request, to the models endpoint,
  and the limit in its parameters is the smaller of the requested limit and 100: never more
  than 100, and the requested limit itself when that is at most 100.
\<close>

theorem search_models_limit_capped:
  "\<exists>r. fst (search_models session_get query limit model_type) = [r]
       \<and> req_url r = BASE_URL @ ''/models''
       \<and> map_of (req_params r) ''limit'' = Some (PInt (min limit 100))
       \<and> min limit 100 \<le> 100
       \<and> (limit \<le> 100 \<longrightarrow> map_of (req_params r) ''limit'' = Some (PInt limit))"
  by (auto simp: search_models_def Let_def split: option.splits sum.splits json.splits)

theorem search_models_limit_capped_witness:
  "(\<exists>r. fst (search_models (\<lambda>r. Inl OSError) ''anime'' 250 None) = [r]
        \<and> map_of (req_params r) ''limit'' = Some (PInt 100))
   \<and> (\<exists>r. fst (search_models (\<lambda>r. Inr (JObj [])) ''anime'' 10 (Some ''LORA'')) = [r]
        \<and> map_of (req_params r) ''limit'' = Some (PInt 10))"
  using search_models_limit_capped [of "\<lambda>r. Inl OSError" "''anime''" 250 None]
    search_models_limit_capped [of "\<lambda>r. Inr (JObj [])" "''anime''" 10 "Some ''LORA''"]
  by auto

section \<open>Properties of the hash verification\<close>

lemma of_char_less_256: "(of_char c :: nat) < 256"
  by (metis char_of_char of_char_of mod_less_divisor zero_less_numeral)

lemma lower_char_not_upper: "\<not> is_upper (lower_char c)"
  using of_char_less_256 [of c] by (auto simp: lower_char_def is_upper_def Let_def)

lemma lower_char_idem: "lower_char (lower_char c) = lower_char c"
  using lower_char_not_upper [of c] by (simp add: lower_char_def [of "lower_char c"])

lemma lower_char_inj_upper:
  assumes "is_upper x" "is_upper y" "lower_char x = lower_char y"
  shows "x = y"
proof -
  have "(of_char (char_of ((of_char x :: nat) + 32)) :: nat)
          = of_char (char_of ((of_char y :: nat) + 32))"
    using assms by (simp add: lower_char_def)
  then have "((of_char x :: nat) + 32) mod 256 = ((of_char y :: nat) + 32) mod 256"
    by simp
  moreover have "(of_char x :: nat) + 32 < 256" "(of_char y :: nat) + 32 < 256"
    using assms(1,2) by (auto simp: is_upper_def Let_def)
  ultimately have "(of_char x :: nat) = of_char y" by simp
  then show ?thesis by simp
qed

lemma lower_char_eq_iff: "lower_char x = lower_char y \<longleftrightarrow> same_letter x y"
proof
  assume eq: "lower_char x = lower_char y"
  show "same_letter x y"
  proof (cases "is_upper x")
    case ux: True
    show ?thesis
    proof (cases "is_upper y")
      case True
      from ux True eq have "x = y" by (rule lower_char_inj_upper)
      then show ?thesis by (simp add: same_letter_def)
    next
      case False
      then have "lower_char y = y" by (simp add: lower_char_def)
      with eq ux show ?thesis by (simp add: same_letter_def)
    qed
  next
    case nx: False
    then have x: "lower_char x = x" by (simp add: lower_char_def)
    show ?thesis
    proof (cases "is_upper y")
      case True
      with eq x show ?thesis by (simp add: same_letter_def)
    next
      case False
      then have "lower_char y = y" by (simp add: lower_char_def)
      with eq x show ?thesis by (simp add: same_letter_def)
    qed
  qed
next
  assume "same_letter x y"
  then show "lower_char x = lower_char y"
    by (auto simp: same_letter_def lower_char_idem)
qed

lemma lower_eq_iff: "lower a = lower b \<longleftrightarrow> equal_up_to_case a b"
proof (induction a arbitrary: b)
  case Nil
  then show ?case by (simp add: lower_def equal_up_to_case_def)
next
  case (Cons x xs)
  then show ?case
    by (cases b) (auto simp: lower_def equal_up_to_case_def lower_char_eq_iff)
qed

lemma lower_hex_digest: "is_hex_digest s \<Longrightarrow> lower s = s"
  by (induction s) (auto simp: is_hex_digest_def lower_def lower_char_def is_upper_def)

text \<open>
  C10. For a file that can be read, \<^const>\<open>verify_file_hash\<close> succeeds exactly when the
  digest of the content and the expected string are equal up to letter case; the digest
  being lower-case hexadecimal, that is exactly when the lower-cased expected string is the
  digest.
\<close>

theorem verify_file_hash_case_insensitive:
  assumes "files p = Some content" and "is_hex_digest (sha256_hexdigest content)"
  shows "verify_file_hash sha256_hexdigest files p expected
           = equal_up_to_case (sha256_hexdigest content) expected
       \<and> verify_file_hash sha256_hexdigest files p expected
           = (lower expected = sha256_hexdigest content)"
  using assms by (auto simp: verify_file_hash_def lower_eq_iff [symmetric] lower_hex_digest)

theorem verify_file_hash_case_insensitive_witness:
  "verify_file_hash (\<lambda>c. ''0a1f'') [''/m/x.bin'' \<mapsto> ''data''] ''/m/x.bin'' ''0A1F''
   \<and> equal_up_to_case ''0a1f'' ''0A1F''
   \<and> \<not> verify_file_hash (\<lambda>c. ''0a1f'') [''/m/x.bin'' \<mapsto> ''data''] ''/m/x.bin'' ''0A1E''"
proof -
  have f: "[''/m/x.bin'' \<mapsto> ''data''] ''/m/x.bin'' = Some ''data''" by simp
  have h: "is_hex_digest ((\<lambda>c. ''0a1f'') ''data'')" by (simp add: is_hex_digest_def)
  have l: "lower ''0A1F'' = ''0a1f''" "lower ''0A1E'' \<noteq> ''0a1f''" by code_simp+
  show ?thesis
    using verify_file_hash_case_insensitive
        [of "[''/m/x.bin'' \<mapsto> ''data'']" "''/m/x.bin''" "''data''" "\<lambda>c. ''0a1f''" "''0A1F''"]
      verify_file_hash_case_insensitive
        [of "[''/m/x.bin'' \<mapsto> ''data'']" "''/m/x.bin''" "''data''" "\<lambda>c. ''0a1f''" "''0A1E''"]
      f h l
    by auto
qed

section \<open>Properties of the directory lookup\<close>

text \<open>
  C7, as the claim states it, fails for the Hugging Face manager: for a model type that the
  folder table does not know, \<^const>\<open>get_model_directory_hf\<close> answers with the directory of
  \<^verbatim>\<open>checkpoints\<close> instead of an error.
\<close>

theorem unknown_category_counterexample:
  "[''checkpoints'' \<mapsto> ([''/models/checkpoints''], [''.safetensors''])] ''nonexistent'' = None
   \<and> get_model_directory_hf
         [''checkpoints'' \<mapsto> ([''/models/checkpoints''], [''.safetensors''])] ''nonexistent''
       = Inr ''/models/checkpoints''"
  by (simp add: get_model_directory_hf_def first_folder_def)

text \<open>
  C7, amended. For a model type that the folder table does not know, the Civitai manager's
  \<^const>\<open>get_model_directory_civitai\<close> raises \<^verbatim>\<open>ValueError\<close>, while the Hugging Face
  manager's \<^const>\<open>get_model_directory_hf\<close> answers as it does for \<^verbatim>\<open>checkpoints\<close>: with
  the first directory of \<^verbatim>\<open>checkpoints\<close>, and with an error only when the table has no
  directory for \<^verbatim>\<open>checkpoints\<close> either.
\<close>

theorem unknown_category_civitai_raises_hf_falls_back:
  assumes "folder_names_and_paths model_type = None"
  shows "get_model_directory_civitai folder_names_and_paths get_folder_paths model_type
           = Inl ValueError
       \<and> get_model_directory_hf folder_names_and_paths model_type
           = first_folder folder_names_and_paths ''checkpoints''"
  using assms
  by (simp add: get_model_directory_civitai_def get_model_directory_hf_def first_folder_def)

theorem unknown_category_civitai_raises_hf_falls_back_witness:
  "get_model_directory_civitai
       [''checkpoints'' \<mapsto> ([''/models/checkpoints''], [''.safetensors''])]
       (\<lambda>t. Inr [''/models/checkpoints'']) ''nonexistent''
     = Inl ValueError
   \<and> get_model_directory_hf
         [''checkpoints'' \<mapsto> ([''/models/checkpoints''], [''.safetensors''])] ''nonexistent''
       = Inr ''/models/checkpoints''"
  using unknown_category_civitai_raises_hf_falls_back
      [of "[''checkpoints'' \<mapsto> ([''/models/checkpoints''], [''.safetensors''])]"
          "''nonexistent''" "\<lambda>t. Inr [''/models/checkpoints'']"]
  by (simp add: first_folder_def)

section \<open>Properties of the URL parser\<close>




























end
